theory Spec2Isabelle
  imports Complex_Main
begin

section \<open>Values shared by the whole module\<close>

text \<open>
  The module \<^verbatim>\<open>app/main.py\<close> is embedded function by function. Python values that
  cross a function boundary are modelled as follows: a JSON-serialisable dict is an
  association list of keys and JSON values (order as written in the source), an
  exception is a value of \<open>exc\<close>, and a coroutine that raises or returns is a value of
  \<open>exc + 'a\<close> with \<open>Inl\<close> for the raise. The module-level globals (\<^verbatim>\<open>_db\<close>, the
  two Prometheus instruments, \<^verbatim>\<open>START_TIME\<close>) and the lines written by the structlog
  logger form the record \<open>app_state\<close>, which every function that touches them takes
  and returns.
\<close>

datatype json = JNull | JBool bool | JInt int | JStr string | JObj "(string \<times> json) list"

text \<open>
  Exceptions. \<open>HTTPException\<close> carries \<^verbatim>\<open>status_code\<close> and \<^verbatim>\<open>detail\<close>.
  \<open>PyException m\<close> is any other exception whose class derives from \<^verbatim>\<open>Exception\<close>
  and whose \<^verbatim>\<open>str()\<close> is \<open>m\<close>; \<open>PyBaseException m\<close> is an exception whose class
  derives from \<^verbatim>\<open>BaseException\<close> but not from \<^verbatim>\<open>Exception\<close>
  (\<^verbatim>\<open>asyncio.CancelledError\<close>, \<^verbatim>\<open>KeyboardInterrupt\<close>, \<^verbatim>\<open>SystemExit\<close>), which an
  \<^verbatim>\<open>except Exception\<close> clause does not catch.
\<close>

datatype exc = HTTPException int string | PyException string | PyBaseException string

fun isinstance_Exception :: "exc \<Rightarrow> bool" where
  "isinstance_Exception (HTTPException c d) = True"
| "isinstance_Exception (PyException m) = True"
| "isinstance_Exception (PyBaseException m) = False"

text \<open>Python's \<^verbatim>\<open>str\<close> of an integer, in decimal.\<close>

fun str_nat :: "nat \<Rightarrow> string" where
  "str_nat n =
     (if n < 10 then [''0123456789'' ! n]
      else str_nat (n div 10) @ [''0123456789'' ! (n mod 10)])"

declare str_nat.simps [simp del]

definition str_int :: "int \<Rightarrow> string" where
  "str_int i = (if i < 0 then CHR ''-'' # str_nat (nat (- i)) else str_nat (nat i))"

text \<open>Python's \<^verbatim>\<open>int\<close> of a float truncates towards zero.\<close>

definition py_int :: "real \<Rightarrow> int" where
  "py_int x = (if 0 \<le> x then \<lfloor>x\<rfloor> else \<lceil>x\<rceil>)"

text \<open>
  Starlette's \<^verbatim>\<open>HTTPException.__str__\<close> renders the status code and the detail; for
  every other exception the text is the one it carries.
\<close>

fun str_exc :: "exc \<Rightarrow> string" where
  "str_exc (HTTPException c d) = str_int c @ '': '' @ d"
| "str_exc (PyException m) = m"
| "str_exc (PyBaseException m) = m"

section \<open>Configuration\<close>

record Settings =
  SERVICE_NAME :: string
  ENVIRONMENT :: string
  DEBUG :: bool
  CORS_ORIGINS :: string
  METRICS_ENABLED :: bool
  DATABASE_DSN :: "string option"
  REDIS_DSN :: "string option"
  OTEL_ENABLED :: bool
  SENTRY_DSN :: "string option"
  HOST :: string
  PORT :: int

section \<open>Logger output and module state\<close>

text \<open>
  One line written by the structlog logger: the level of the call, the event name and
  the keyword arguments in the order of the call.
\<close>

record log_entry =
  level :: string
  event :: string
  kwargs :: "(string \<times> json) list"

definition dsn_json :: "string option \<Rightarrow> json" where
  "dsn_json d = (case d of None \<Rightarrow> JNull | Some v \<Rightarrow> JStr v)"

record Database =
  dsn :: "string option"
  connected :: bool

text \<open>
  The globals of the module. \<open>module_db\<close> is \<^verbatim>\<open>_db\<close> (\<open>None\<close> until a handle is
  constructed), \<open>REQUEST_COUNT\<close> maps a label triple (method, endpoint, http_status) to
  the counter's value and \<open>REQUEST_LATENCY\<close> an endpoint label to the gauge's value.
\<close>

record app_state =
  module_db :: "Database option"
  REQUEST_COUNT :: "string \<times> string \<times> string \<Rightarrow> nat"
  REQUEST_LATENCY :: "string \<Rightarrow> real option"
  START_TIME :: real
  log_lines :: "log_entry list"

definition logger_call :: "string \<Rightarrow> string \<Rightarrow> (string \<times> json) list \<Rightarrow> app_state \<Rightarrow> app_state" where
  "logger_call lv ev kw s =
     s\<lparr>log_lines := log_lines s @ [\<lparr>level = lv, event = ev, kwargs = kw\<rparr>]\<rparr>"

abbreviation logger_info :: "string \<Rightarrow> (string \<times> json) list \<Rightarrow> app_state \<Rightarrow> app_state" where
  "logger_info \<equiv> logger_call ''info''"

abbreviation logger_error :: "string \<Rightarrow> (string \<times> json) list \<Rightarrow> app_state \<Rightarrow> app_state" where
  "logger_error \<equiv> logger_call ''error''"

section \<open>The Database placeholder\<close>

text \<open>
  \<^verbatim>\<open>Database.__init__\<close>, \<^verbatim>\<open>connect\<close>, \<^verbatim>\<open>disconnect\<close> and \<^verbatim>\<open>is_healthy\<close>. The
  two lifecycle methods write a log line, so they take and return the module state next
  to the handle.
\<close>

definition Database_init :: "string option \<Rightarrow> Database" where
  "Database_init d = \<lparr>dsn = d, connected = False\<rparr>"

definition connect :: "Database \<Rightarrow> app_state \<Rightarrow> Database \<times> app_state" where
  "connect self s =
     (let s1 = logger_info ''database.connecting'' [(''dsn'', dsn_json (dsn self))] s
      in (self\<lparr>connected := True\<rparr>, s1))"

definition disconnect :: "Database \<Rightarrow> app_state \<Rightarrow> Database \<times> app_state" where
  "disconnect self s =
     (let s1 = logger_info ''database.disconnecting'' [] s
      in (self\<lparr>connected := False\<rparr>, s1))"

definition is_healthy :: "Database \<Rightarrow> bool" where
  "is_healthy self = connected self"

text \<open>
  \<^verbatim>\<open>get_db\<close>: the dependency constructs and connects the handle when \<^verbatim>\<open>_db\<close> is
  \<open>None\<close>, stores it in the global and yields it; its \<^verbatim>\<open>finally\<close> block is
  \<^verbatim>\<open>pass\<close>. The awaited \<^verbatim>\<open>connect\<close> has no suspension point of its own, so
  construction and connection are one step of the model.
\<close>

definition get_db :: "Settings \<Rightarrow> app_state \<Rightarrow> Database \<times> app_state" where
  "get_db settings s =
     (case module_db s of
        None \<Rightarrow>
          (let (d, s1) = connect (Database_init (DATABASE_DSN settings)) s
           in (d, s1\<lparr>module_db := Some d\<rparr>))
      | Some d \<Rightarrow> (d, s))"

section \<open>Startup and shutdown hooks\<close>

definition truthy :: "string option \<Rightarrow> bool" where
  "truthy v = (case v of None \<Rightarrow> False | Some t \<Rightarrow> t \<noteq> [])"

definition on_startup :: "Settings \<Rightarrow> app_state \<Rightarrow> app_state" where
  "on_startup settings s =
     (let s1 = logger_info ''startup.begin''
                 [(''service'', JStr (SERVICE_NAME settings)),
                  (''environment'', JStr (ENVIRONMENT settings))] s;
          s2 = (case module_db s1 of
                  None \<Rightarrow>
                    (let (d, t) = connect (Database_init (DATABASE_DSN settings)) s1
                     in t\<lparr>module_db := Some d\<rparr>)
                | Some d \<Rightarrow> s1);
          s3 = (if OTEL_ENABLED settings then logger_info ''otel.enabled'' [] s2 else s2);
          s4 = (if truthy (SENTRY_DSN settings) then logger_info ''sentry.enabled'' [] s3 else s3)
      in logger_info ''startup.complete'' [] s4)"

text \<open>
  \<^verbatim>\<open>on_shutdown\<close> is a coroutine that can raise (an attribute access on a missing
  handle would), so its result is a sum; the source guards the call with
  \<^verbatim>\<open>if _db is not None\<close>.
\<close>

definition on_shutdown :: "app_state \<Rightarrow> exc + app_state" where
  "on_shutdown s =
     (let s1 = logger_info ''shutdown.begin'' [] s;
          s2 = (case module_db s1 of
                  None \<Rightarrow> s1
                | Some d \<Rightarrow>
                    (let (d', t) = disconnect d s1 in t\<lparr>module_db := Some d'\<rparr>))
      in Inr (logger_info ''shutdown.complete'' [] s2))"

section \<open>Responses\<close>

datatype content = JSONContent json | TextContent string

record response =
  status_code :: int
  body :: content
  media_type :: string

text \<open>
  The response classes the handlers construct. \<^verbatim>\<open>PlainTextResponse(content)\<close> takes
  Starlette's default status 200.
\<close>

definition JSONResponse :: "int \<Rightarrow> json \<Rightarrow> response" where
  "JSONResponse c j = \<lparr>status_code = c, body = JSONContent j, media_type = ''application/json''\<rparr>"

definition PlainTextResponse :: "string \<Rightarrow> response" where
  "PlainTextResponse t = \<lparr>status_code = 200, body = TextContent t, media_type = ''text/plain''\<rparr>"

text \<open>
  What the framework does around a handler, as far as the module relies on it: a dict a
  handler returns is sent as a JSON response with status 200, and an \<^verbatim>\<open>HTTPException\<close>
  a handler raises is turned by FastAPI's own handler into a JSON response with the
  exception's status code and the body \<^verbatim>\<open>{"detail": detail}\<close>.
\<close>

definition serialize_response :: "json \<Rightarrow> response" where
  "serialize_response j = JSONResponse 200 j"

definition http_exception_handler :: "int \<Rightarrow> string \<Rightarrow> response" where
  "http_exception_handler c d = JSONResponse c (JObj [(''detail'', JStr d)])"

text \<open>Reading a response: a field of a JSON object body, and the text of a response.\<close>

definition body_field :: "string \<Rightarrow> response \<Rightarrow> json option" where
  "body_field k r =
     (case body r of
        JSONContent (JObj kvs) \<Rightarrow> map_of kvs k
      | JSONContent _ \<Rightarrow> None
      | TextContent _ \<Rightarrow> None)"

section \<open>Route handlers\<close>

definition root :: "Settings \<Rightarrow> json" where
  "root settings =
     JObj [(''service'', JStr (SERVICE_NAME settings)),
           (''environment'', JStr (ENVIRONMENT settings))]"

definition get_item :: "int \<Rightarrow> Database \<Rightarrow> exc + json" where
  "get_item item_id db =
     (let healthy = is_healthy db
      in if \<not> healthy then Inl (HTTPException 503 ''database unavailable'')
         else Inr (JObj [(''item_id'', JInt item_id), (''name'', JStr ''example''),
                         (''db'', JBool healthy)]))"

text \<open>
  \<^verbatim>\<open>health\<close> reads the clock; \<open>now\<close> is the reading of \<^verbatim>\<open>time.time()\<close> in the
  handler and \<open>start_time\<close> the module's \<^verbatim>\<open>START_TIME\<close>.
\<close>

definition health :: "real \<Rightarrow> real \<Rightarrow> Database \<Rightarrow> response" where
  "health start_time now db =
     (let db_ok = is_healthy db;
          status = (if db_ok then ''ok'' else ''fail'');
          code = (if db_ok then 200 else 503)
      in JSONResponse code
           (JObj [(''status'', JStr status),
                  (''checks'', JObj [(''database'', JStr (if db_ok then ''ok'' else ''unhealthy''))]),
                  (''uptime_seconds'', JInt (py_int (now - start_time)))]))"

definition live :: response where
  "live = PlainTextResponse ''alive''"

definition ready :: "Database \<Rightarrow> exc + response" where
  "ready db =
     (let ok = is_healthy db
      in if ok then Inr (PlainTextResponse ''ready'')
         else Inl (HTTPException 503 ''not ready''))"

section \<open>Exception handler\<close>

record request =
  req_method :: string
  url_path :: string

definition generic_exception_handler ::
    "Settings \<Rightarrow> request \<Rightarrow> exc \<Rightarrow> app_state \<Rightarrow> response \<times> app_state" where
  "generic_exception_handler settings rq e s =
     (let s1 = logger_error ''unhandled_exception''
                 [(''path'', JStr (url_path rq)), (''error'', JStr (str_exc e))] s
      in if DEBUG settings
         then (JSONResponse 500 (JObj [(''detail'', JStr (str_exc e))]), s1)
         else (JSONResponse 500 (JObj [(''detail'', JStr ''Internal Server Error'')]), s1))"

section \<open>Instrumentation middleware\<close>

text \<open>
  What one call of the middleware reads from outside the module: the two readings of
  \<^verbatim>\<open>time.time()\<close>, and for each library call on the way out the text of the exception
  it raises, if it raises one (a class deriving from \<^verbatim>\<open>Exception\<close>): the
  \<^verbatim>\<open>labels(...).inc()\<close> of the counter, the \<^verbatim>\<open>labels(...).set(...)\<close> of the gauge,
  the \<^verbatim>\<open>logger.info\<close> call.
\<close>

record call_env =
  t_start :: real
  t_finish :: real
  inc_error :: "string option"
  set_error :: "string option"
  log_error :: "string option"

text \<open>
  Reading the local \<^verbatim>\<open>status_code\<close> before either branch has assigned it raises
  \<^verbatim>\<open>UnboundLocalError\<close>, a class deriving from \<^verbatim>\<open>Exception\<close>.
\<close>

definition UnboundLocalError :: "string \<Rightarrow> exc" where
  "UnboundLocalError v =
     PyException (''cannot access local variable '' @ v @ '' where it is not associated with a value'')"

text \<open>
  The inner \<^verbatim>\<open>try\<close> of the \<^verbatim>\<open>finally\<close> block. \<open>status_code'\<close> is the local
  \<^verbatim>\<open>status_code\<close>, \<open>None\<close> while unbound. Whatever is raised inside (by reading the
  unbound local, by the counter or by the gauge) is caught by \<^verbatim>\<open>except Exception: pass\<close>;
  what ran before the raise stays done.
\<close>

definition record_metrics ::
    "call_env \<Rightarrow> string \<Rightarrow> string \<Rightarrow> int option \<Rightarrow> real \<Rightarrow> app_state \<Rightarrow> app_state" where
  "record_metrics env meth endpoint status_code' latency s =
     (case status_code' of
        None \<Rightarrow> s
      | Some c \<Rightarrow>
          (case inc_error env of
             Some m \<Rightarrow> s
           | None \<Rightarrow>
               (let k = (meth, endpoint, str_int c);
                    s1 = s\<lparr>REQUEST_COUNT := (REQUEST_COUNT s)(k := REQUEST_COUNT s k + 1)\<rparr>
                in case set_error env of
                     Some m \<Rightarrow> s1
                   | None \<Rightarrow> s1\<lparr>REQUEST_LATENCY := (REQUEST_LATENCY s1)(endpoint \<mapsto> latency)\<rparr>)))"

text \<open>
  The \<^verbatim>\<open>logger.info("http.request", ...)\<close> call after the inner \<^verbatim>\<open>try\<close>. It stands
  outside every handler, so an exception raised while its arguments are evaluated or by
  the logger leaves the \<^verbatim>\<open>finally\<close> block.
\<close>

definition log_request ::
    "call_env \<Rightarrow> string \<Rightarrow> string \<Rightarrow> int option \<Rightarrow> real \<Rightarrow> app_state \<Rightarrow> exc + app_state" where
  "log_request env meth endpoint status_code' latency s =
     (case status_code' of
        None \<Rightarrow> Inl (UnboundLocalError ''status_code'')
      | Some c \<Rightarrow>
          (case log_error env of
             Some m \<Rightarrow> Inl (PyException m)
           | None \<Rightarrow>
               Inr (logger_info ''http.request''
                      [(''method'', JStr meth), (''path'', JStr endpoint),
                       (''status_code'', JInt c),
                       (''latency_ms'', JInt (py_int (latency * 1000)))] s)))"

text \<open>
  \<^verbatim>\<open>add_metrics_and_logging\<close>. \<open>call_next\<close> is the rest of the application: it
  returns a response or raises, and may change the module state. A response binds
  \<^verbatim>\<open>status_code\<close> to its status; an exception that \<^verbatim>\<open>except Exception\<close> catches binds
  it to 500; any other exception leaves it unbound. The \<^verbatim>\<open>finally\<close> block runs in all
  three cases, and an exception leaving it replaces the pending return or raise.
\<close>

definition add_metrics_and_logging ::
    "call_env \<Rightarrow> request \<Rightarrow> (app_state \<Rightarrow> (exc + response) \<times> app_state) \<Rightarrow> app_state
      \<Rightarrow> (exc + response) \<times> app_state" where
  "add_metrics_and_logging env rq call_next s =
     (let endpoint = url_path rq;
          meth = req_method rq;
          (r, s1) = call_next s;
          status_code' = (case r of
                            Inr resp \<Rightarrow> Some (status_code resp)
                          | Inl e \<Rightarrow> if isinstance_Exception e then Some 500 else None);
          latency = t_finish env - t_start env;
          s2 = record_metrics env meth endpoint status_code' latency s1
      in case log_request env meth endpoint status_code' latency s2 of
           Inl e' \<Rightarrow> (Inl e', s2)
         | Inr s3 \<Rightarrow> (r, s3))"

section \<open>The assembled application\<close>

text \<open>
  The route the framework's router matched, with the path parameter already converted.
  The \<^verbatim>\<open>/metrics\<close> route only renders the registry through the library and is left out.
\<close>

datatype endpoint = Root | GetItem int | Health | Live | Ready

text \<open>
  A handler call with its \<^verbatim>\<open>Depends(get_db)\<close> resolved first; \<open>now\<close> is the clock
  reading inside the handler.
\<close>

fun call_endpoint :: "Settings \<Rightarrow> real \<Rightarrow> endpoint \<Rightarrow> app_state \<Rightarrow> (exc + response) \<times> app_state" where
  "call_endpoint settings now Root s = (Inr (serialize_response (root settings)), s)"
| "call_endpoint settings now (GetItem item_id) s =
     (let (db, s1) = get_db settings s
      in (case get_item item_id db of
            Inl e \<Rightarrow> (Inl e, s1)
          | Inr j \<Rightarrow> (Inr (serialize_response j), s1)))"
| "call_endpoint settings now Health s =
     (let (db, s1) = get_db settings s in (Inr (health (START_TIME s1) now db), s1))"
| "call_endpoint settings now Live s = (Inr live, s)"
| "call_endpoint settings now Ready s =
     (let (db, s1) = get_db settings s in (ready db, s1))"

text \<open>
  The router behind the framework's exception middleware: an \<^verbatim>\<open>HTTPException\<close> becomes
  its response before the instrumentation middleware sees the outcome; anything else
  passes through.
\<close>

definition routed :: "Settings \<Rightarrow> real \<Rightarrow> endpoint \<Rightarrow> app_state \<Rightarrow> (exc + response) \<times> app_state" where
  "routed settings now ep s =
     (case call_endpoint settings now ep s of
        (Inl (HTTPException c d), s1) \<Rightarrow> (Inr (http_exception_handler c d), s1)
      | (Inl (PyException m), s1) \<Rightarrow> (Inl (PyException m), s1)
      | (Inl (PyBaseException m), s1) \<Rightarrow> (Inl (PyBaseException m), s1)
      | (Inr resp, s1) \<Rightarrow> (Inr resp, s1))"

text \<open>
  One request through the whole stack: the server-error layer, which hands an exception
  deriving from \<^verbatim>\<open>Exception\<close> to \<^verbatim>\<open>generic_exception_handler\<close>, around the
  instrumentation middleware, around the router.
\<close>

definition server_error_layer ::
    "Settings \<Rightarrow> request \<Rightarrow> (app_state \<Rightarrow> (exc + response) \<times> app_state) \<Rightarrow> app_state
      \<Rightarrow> (exc + response) \<times> app_state" where
  "server_error_layer settings rq inner s =
     (case inner s of
        (Inr resp, s1) \<Rightarrow> (Inr resp, s1)
      | (Inl e, s1) \<Rightarrow>
          if isinstance_Exception e
          then (let (resp, s2) = generic_exception_handler settings rq e s1 in (Inr resp, s2))
          else (Inl e, s1))"

definition handle_request ::
    "Settings \<Rightarrow> call_env \<Rightarrow> real \<Rightarrow> request \<Rightarrow> endpoint \<Rightarrow> app_state
      \<Rightarrow> (exc + response) \<times> app_state" where
  "handle_request settings env now rq ep s =
     server_error_layer settings rq
       (add_metrics_and_logging env rq (routed settings now ep)) s"

text \<open>The status a client sees for an outcome, when there is a response.\<close>

definition outcome_status :: "exc + response \<Rightarrow> int option" where
  "outcome_status r = (case r of Inl e \<Rightarrow> None | Inr resp \<Rightarrow> Some (status_code resp))"

text \<open>
  The life of the process as a sequence of events: the startup hook, the shutdown hook,
  and requests. A hook that raised would leave the state as it was.
\<close>

datatype event = Startup | Shutdown | Request call_env real request endpoint

fun step :: "Settings \<Rightarrow> event \<Rightarrow> app_state \<Rightarrow> app_state" where
  "step settings Startup s = on_startup settings s"
| "step settings Shutdown s = (case on_shutdown s of Inl e \<Rightarrow> s | Inr s1 \<Rightarrow> s1)"
| "step settings (Request env now rq ep) s = snd (handle_request settings env now rq ep s)"

fun run :: "Settings \<Rightarrow> event list \<Rightarrow> app_state \<Rightarrow> app_state" where
  "run settings [] s = s"
| "run settings (e # es) s = run settings es (step settings e s)"

text \<open>The module state right after import: no handle, instruments at zero, nothing logged.\<close>

definition initial_state :: "real \<Rightarrow> app_state" where
  "initial_state t0 =
     \<lparr>module_db = None, REQUEST_COUNT = (\<lambda>k. 0), REQUEST_LATENCY = Map.empty,
      START_TIME = t0, log_lines = []\<rparr>"

section \<open>Loading the settings\<close>

text \<open>
  \<^verbatim>\<open>Settings()\<close> fills each field from the process environment under the field's
  \<^verbatim>\<open>env\<close> name (case-sensitive), then from the \<^verbatim>\<open>.env\<close> file named in \<^verbatim>\<open>Config\<close>,
  then from the default written in \<^verbatim>\<open>Field(...)\<close>. Both sources are maps from names
  to text. The coercion of a text to \<^verbatim>\<open>bool\<close> and to \<^verbatim>\<open>int\<close> belongs to pydantic
  and is a parameter; a text it rejects makes the constructor raise a validation error
  naming the fields.
\<close>

datatype config_error = ValidationError "string list"

definition source_value :: "(string \<Rightarrow> string option) \<Rightarrow> (string \<Rightarrow> string option) \<Rightarrow> string \<Rightarrow> string option" where
  "source_value environ dotenv name =
     (case environ name of Some v \<Rightarrow> Some v | None \<Rightarrow> dotenv name)"

definition coerced :: "(string \<Rightarrow> 'a option) \<Rightarrow> 'a \<Rightarrow> string option \<Rightarrow> 'a option" where
  "coerced parse dflt raw = (case raw of None \<Rightarrow> Some dflt | Some v \<Rightarrow> parse v)"

definition str_field :: "string \<Rightarrow> string option \<Rightarrow> string" where
  "str_field dflt raw = (case raw of None \<Rightarrow> dflt | Some v \<Rightarrow> v)"

definition invalid :: "string \<Rightarrow> 'a option \<Rightarrow> string list" where
  "invalid name v = (case v of None \<Rightarrow> [name] | Some x \<Rightarrow> [])"

definition Settings_load ::
    "(string \<Rightarrow> bool option) \<Rightarrow> (string \<Rightarrow> int option)
      \<Rightarrow> (string \<Rightarrow> string option) \<Rightarrow> (string \<Rightarrow> string option) \<Rightarrow> config_error + Settings" where
  "Settings_load parse_bool parse_int environ dotenv =
     (let src = source_value environ dotenv;
          debug = coerced parse_bool False (src ''DEBUG'');
          metrics_enabled = coerced parse_bool True (src ''METRICS_ENABLED'');
          otel_enabled = coerced parse_bool False (src ''OTEL_ENABLED'');
          port = coerced parse_int 8000 (src ''PORT'');
          errors = invalid ''DEBUG'' debug @ invalid ''METRICS_ENABLED'' metrics_enabled
                   @ invalid ''OTEL_ENABLED'' otel_enabled @ invalid ''PORT'' port
      in case (debug, metrics_enabled, otel_enabled, port) of
           (Some d, Some m, Some ot, Some p) \<Rightarrow>
             Inr \<lparr>SERVICE_NAME = str_field ''prodstarter-fastapi'' (src ''SERVICE_NAME''),
                  ENVIRONMENT = str_field ''production'' (src ''ENVIRONMENT''),
                  DEBUG = d,
                  CORS_ORIGINS = str_field [] (src ''CORS_ORIGINS''),
                  METRICS_ENABLED = m,
                  DATABASE_DSN = src ''DATABASE_DSN'',
                  REDIS_DSN = src ''REDIS_DSN'',
                  OTEL_ENABLED = ot,
                  SENTRY_DSN = src ''SENTRY_DSN'',
                  HOST = str_field ''0.0.0.0'' (src ''HOST''),
                  PORT = p\<rparr>
         | _ \<Rightarrow> Inl (ValidationError errors))"

text \<open>
  The host filter of \<^verbatim>\<open>create_app\<close>. \<^verbatim>\<open>TRUSTED_HOSTS\<close> is not a field of
  \<^verbatim>\<open>Settings\<close>: it is read from \<^verbatim>\<open>os.environ\<close> with the default \<^verbatim>\<open>"*"\<close> when the
  application is assembled with \<^verbatim>\<open>DEBUG\<close> off, split at commas, each part stripped, empty
  parts dropped. Characters stand for code points below 256.
\<close>

definition isspace :: "char \<Rightarrow> bool" where
  "isspace c = ((of_char c :: nat) \<in> set [9, 10, 11, 12, 13, 28, 29, 30, 31, 32, 133, 160])"

definition strip :: "string \<Rightarrow> string" where
  "strip t = rev (dropWhile isspace (rev (dropWhile isspace t)))"

fun split_on :: "char \<Rightarrow> string \<Rightarrow> string list" where
  "split_on sep [] = [[]]"
| "split_on sep (c # cs) =
     (if c = sep then [] # split_on sep cs
      else (case split_on sep cs of [] \<Rightarrow> [[c]] | w # ws \<Rightarrow> (c # w) # ws))"

definition stripped_parts :: "string \<Rightarrow> string list" where
  "stripped_parts t = [strip h. h \<leftarrow> split_on CHR '','' t, strip h \<noteq> []]"

definition TRUSTED_HOSTS :: "(string \<Rightarrow> string option) \<Rightarrow> string" where
  "TRUSTED_HOSTS environ = (case environ ''TRUSTED_HOSTS'' of None \<Rightarrow> ''*'' | Some v \<Rightarrow> v)"

definition trusted_host_list :: "Settings \<Rightarrow> (string \<Rightarrow> string option) \<Rightarrow> string list option" where
  "trusted_host_list settings environ =
     (if \<not> DEBUG settings then Some (stripped_parts (TRUSTED_HOSTS environ)) else None)"

definition cors_origins :: "Settings \<Rightarrow> string list" where
  "cors_origins settings =
     (if CORS_ORIGINS settings \<noteq> [] then stripped_parts (CORS_ORIGINS settings)
      else if DEBUG settings then [''*''] else [])"

text \<open>The names \<^verbatim>\<open>Settings\<close> reads, and the defaults written in the class.\<close>

definition setting_names :: "string list" where
  "setting_names =
     [''SERVICE_NAME'', ''ENVIRONMENT'', ''DEBUG'', ''CORS_ORIGINS'', ''METRICS_ENABLED'',
      ''DATABASE_DSN'', ''REDIS_DSN'', ''OTEL_ENABLED'', ''SENTRY_DSN'', ''HOST'', ''PORT'']"

definition unset :: "(string \<Rightarrow> string option) \<Rightarrow> string list \<Rightarrow> bool" where
  "unset source names = list_all (\<lambda>n. source n = None) names"

text \<open>Which routes declare the \<^verbatim>\<open>Depends(get_db)\<close> parameter.\<close>

fun db_dependent :: "endpoint \<Rightarrow> bool" where
  "db_dependent Root = False"
| "db_dependent (GetItem item_id) = True"
| "db_dependent Health = True"
| "db_dependent Live = False"
| "db_dependent Ready = True"

text \<open>
  The outcomes of \<open>call_next\<close> for which the middleware's \<^verbatim>\<open>try\<close> statement binds
  \<^verbatim>\<open>status_code\<close>: a response, or an exception that \<^verbatim>\<open>except Exception\<close> catches.
\<close>

definition binds_status :: "exc + response \<Rightarrow> bool" where
  "binds_status r = (case r of Inr resp \<Rightarrow> True | Inl e \<Rightarrow> isinstance_Exception e)"

text \<open>The handle is absent or connected.\<close>

definition handle_ok :: "app_state \<Rightarrow> bool" where
  "handle_ok s = (case module_db s of None \<Rightarrow> True | Some d \<Rightarrow> connected d)"

text \<open>The value of every field of \<^verbatim>\<open>Settings\<close> when nothing sets it.\<close>

definition default_settings :: Settings where
  "default_settings =
     \<lparr>SERVICE_NAME = ''prodstarter-fastapi'', ENVIRONMENT = ''production'', DEBUG = False,
      CORS_ORIGINS = [], METRICS_ENABLED = True, DATABASE_DSN = None, REDIS_DSN = None,
      OTEL_ENABLED = False, SENTRY_DSN = None, HOST = ''0.0.0.0'', PORT = 8000\<rparr>"

text \<open>
  A concrete call for evaluating the functions: a \<^verbatim>\<open>GET /live\<close> request that takes
  a quarter of a second and during which no library call fails.
\<close>

definition example_env :: call_env where
  "example_env = \<lparr>t_start = 0, t_finish = 1 / 4, inc_error = None, set_error = None, log_error = None\<rparr>"

definition example_request :: request where
  "example_request = \<lparr>req_method = ''GET'', url_path = ''/live''\<rparr>"

section \<open>The Database handle\<close>

text \<open>
  C6. For every Database handle in any state: after \<^verbatim>\<open>connect()\<close> the handle is
  connected, and connecting a second time gives the same handle again (idempotent);
  after \<^verbatim>\<open>disconnect()\<close> it is disconnected; neither changes the DSN; and
  \<^verbatim>\<open>is_healthy()\<close> returns exactly the connected flag.
\<close>

theorem database_lifecycle:
  "connected (fst (connect db s))
   \<and> fst (connect (fst (connect db s)) s') = fst (connect db s)
   \<and> \<not> connected (fst (disconnect db s))
   \<and> dsn (fst (connect db s)) = dsn db \<and> dsn (fst (disconnect db s)) = dsn db
   \<and> is_healthy db = connected db"
  by (simp add: connect_def disconnect_def is_healthy_def)

section \<open>Probes and the item route\<close>

text \<open>
  C1. \<^verbatim>\<open>GET /health\<close> and \<^verbatim>\<open>GET /ready\<close> answer 200 when the handle the handler
  checks is connected and 503 otherwise, for the handler on any handle and for the routed
  request on the handle \<^verbatim>\<open>get_db\<close> yields. The body of \<^verbatim>\<open>/health\<close> always has
  the uptime in whole seconds and a status field that is "ok" with 200 and "fail" with
  503.
\<close>

theorem health_ready_status:
  "status_code (health st now db) = (if connected db then 200 else 503)
   \<and> body_field ''status'' (health st now db)
       = Some (JStr (if connected db then ''ok'' else ''fail''))
   \<and> body_field ''uptime_seconds'' (health st now db) = Some (JInt (py_int (now - st)))
   \<and> ready db = (if connected db then Inr (PlainTextResponse ''ready'')
                  else Inl (HTTPException 503 ''not ready''))
   \<and> outcome_status (fst (routed settings now Health s))
       = Some (if connected (fst (get_db settings s)) then 200 else 503)
   \<and> outcome_status (fst (routed settings now Ready s))
       = Some (if connected (fst (get_db settings s)) then 200 else 503)"
  by (simp add: health_def ready_def is_healthy_def JSONResponse_def PlainTextResponse_def
      body_field_def routed_def outcome_status_def http_exception_handler_def
      split: prod.split)

text \<open>
  C2. For every integer id, \<^verbatim>\<open>get_item\<close> on a handle that is not connected raises the
  503 \<^verbatim>\<open>HTTPException\<close> with detail "database unavailable", which the client receives
  as a 503 response carrying that detail; on a connected handle the client receives 200
  with the JSON body of \<^verbatim>\<open>item_id\<close> (the requested id), \<^verbatim>\<open>name\<close> "example" and
  \<^verbatim>\<open>db\<close> true.
\<close>

theorem get_item_response:
  "get_item item_id db =
     (if connected db
      then Inr (JObj [(''item_id'', JInt item_id), (''name'', JStr ''example''),
                      (''db'', JBool True)])
      else Inl (HTTPException 503 ''database unavailable''))
   \<and> fst (routed settings now (GetItem item_id) s) =
     (if connected (fst (get_db settings s))
      then Inr (JSONResponse 200
             (JObj [(''item_id'', JInt item_id), (''name'', JStr ''example''),
                    (''db'', JBool True)]))
      else Inr (JSONResponse 503 (JObj [(''detail'', JStr ''database unavailable'')])))"
  by (auto simp: get_item_def is_healthy_def routed_def serialize_response_def
      http_exception_handler_def Let_def split: prod.splits)

text \<open>
  C9. \<^verbatim>\<open>GET /live\<close> answers 200 with the constant body "alive" in every module state
  (handle connected, disconnected or never created), leaves the state as it was, and
  its answer is the same for any two states, settings and clock readings.
\<close>

theorem live_always_alive:
  "routed settings now Live s = (Inr live, s)
   \<and> status_code live = 200 \<and> body live = TextContent ''alive''
   \<and> fst (routed settings now Live s) = fst (routed settings' now' Live s')"
  by (simp add: routed_def live_def PlainTextResponse_def)

section \<open>The exception handler\<close>

text \<open>
  C5. With \<^verbatim>\<open>DEBUG\<close> off, \<^verbatim>\<open>generic_exception_handler\<close> answers every exception
  with status 500 and the body \<^verbatim>\<open>{"detail": "Internal Server Error"}\<close>, so the answers
  to any two exceptions (on any requests and states) are identical; with \<^verbatim>\<open>DEBUG\<close> on
  the 500 body carries the exception's text.
\<close>

theorem generic_handler_hides_exception:
  "fst (generic_exception_handler (settings\<lparr>DEBUG := False\<rparr>) rq e s)
     = JSONResponse 500 (JObj [(''detail'', JStr ''Internal Server Error'')])
   \<and> fst (generic_exception_handler (settings\<lparr>DEBUG := False\<rparr>) rq e s)
     = fst (generic_exception_handler (settings'\<lparr>DEBUG := False\<rparr>) rq' e' s')
   \<and> fst (generic_exception_handler (settings\<lparr>DEBUG := True\<rparr>) rq e s)
     = JSONResponse 500 (JObj [(''detail'', JStr (str_exc e))])"
  by (simp add: generic_exception_handler_def)

section \<open>Shutdown\<close>

text \<open>
  C8. The shutdown hook on a state with no handle returns normally: it writes its two
  log lines and nothing else, and the handle is still absent. On a state with a handle
  it returns normally and the handle is the old one with the connected flag off.
\<close>

theorem shutdown_hook:
  "on_shutdown (s\<lparr>module_db := None\<rparr>)
     = Inr (logger_info ''shutdown.complete'' []
             (logger_info ''shutdown.begin'' [] (s\<lparr>module_db := None\<rparr>)))
   \<and> (\<exists>s'. on_shutdown (s\<lparr>module_db := None\<rparr>) = Inr s' \<and> module_db s' = None)
   \<and> (\<exists>s'. on_shutdown (s\<lparr>module_db := Some d\<rparr>) = Inr s'
          \<and> module_db s' = Some (d\<lparr>connected := False\<rparr>))"
  by (simp add: on_shutdown_def logger_call_def disconnect_def)

section \<open>The instrumentation middleware\<close>

text \<open>
  When \<open>call_next\<close> returns a response or raises an exception deriving from
  \<^verbatim>\<open>Exception\<close>, and neither the counter nor the logger fails, the middleware hands
  the outcome on unchanged, adds one to the counter of the label triple (method, path,
  status) and to no other, and writes one log line.
\<close>

lemma middleware_records_once:
  assumes "log_error env = None" and "inc_error env = None" and "call_next s = (r, s1)"
    and "binds_status r"
  shows "\<exists>c s'. add_metrics_and_logging env rq call_next s = (r, s')
     \<and> c = (case r of Inr resp \<Rightarrow> status_code resp | Inl e \<Rightarrow> 500)
     \<and> REQUEST_COUNT s' = (REQUEST_COUNT s1)((req_method rq, url_path rq, str_int c)
          := REQUEST_COUNT s1 (req_method rq, url_path rq, str_int c) + 1)
     \<and> length (log_lines s') = length (log_lines s1) + 1"
  using assms
  by (auto simp: add_metrics_and_logging_def log_request_def binds_status_def Let_def
      record_metrics_def logger_call_def
      split: prod.splits sum.splits option.splits)

text \<open>
  C3, at the input where the code departs from it. When \<open>call_next\<close> raises an exception
  that does not derive from \<^verbatim>\<open>Exception\<close> (a cancelled request raises
  \<^verbatim>\<open>asyncio.CancelledError\<close>), neither branch of the \<^verbatim>\<open>try\<close> statement binds
  \<^verbatim>\<open>status_code\<close>. The \<^verbatim>\<open>finally\<close> block then records nothing: no counter changes
  and no log line is written, and the middleware raises \<^verbatim>\<open>UnboundLocalError\<close> in place
  of the original exception.
\<close>

theorem middleware_unbound_status_code:
  "add_metrics_and_logging env rq (\<lambda>s. (Inl (PyBaseException m), s)) s
     = (Inl (UnboundLocalError ''status_code''), s)
   \<and> REQUEST_COUNT (snd (add_metrics_and_logging env rq (\<lambda>s. (Inl (PyBaseException m), s)) s))
     = REQUEST_COUNT s
   \<and> log_lines (snd (add_metrics_and_logging env rq (\<lambda>s. (Inl (PyBaseException m), s)) s))
     = log_lines s
   \<and> fst (add_metrics_and_logging env rq (\<lambda>s. (Inl (PyBaseException m), s)) s)
     \<noteq> Inl (PyBaseException m)"
  by (simp add: add_metrics_and_logging_def record_metrics_def log_request_def
      UnboundLocalError_def)

text \<open>
  C4 as stated fails for the log line: the \<^verbatim>\<open>logger.info\<close> call stands after the
  guarded block, so when it raises, the request that the handler answered with
  "alive" ends with that exception instead.
\<close>

theorem log_failure_propagates:
  "fst (add_metrics_and_logging (example_env\<lparr>log_error := Some ''boom''\<rparr>) example_request
          (\<lambda>s. (Inr live, s)) (initial_state 0)) = Inl (PyException ''boom'')"
  by (simp add: add_metrics_and_logging_def log_request_def record_metrics_def Let_def
      example_env_def)

text \<open>
  C4, amended. For every request whose handler returns a response or raises an exception
  deriving from \<^verbatim>\<open>Exception\<close>, a failure of the counter increment or of the gauge set is
  swallowed: provided the log call on the way out does not fail, the middleware returns
  the handler's response or re-raises the handler's exception unchanged, whatever the two
  metrics calls do, and the database handle is the one the handler left.
\<close>

theorem metrics_failures_swallowed:
  assumes "log_error env = None" and "binds_status (fst (call_next s))"
  shows "fst (add_metrics_and_logging env rq call_next s) = fst (call_next s)
     \<and> module_db (snd (add_metrics_and_logging env rq call_next s)) = module_db (snd (call_next s))"
  using assms
  by (auto simp: add_metrics_and_logging_def log_request_def binds_status_def Let_def
      record_metrics_def logger_call_def
      split: prod.splits sum.splits option.splits)

theorem metrics_failures_swallowed_witness:
  "log_error (example_env\<lparr>inc_error := Some ''counter'', set_error := Some ''gauge''\<rparr>) = None
   \<and> binds_status (fst ((\<lambda>s. (Inr live, s)) (initial_state 0)))
   \<and> fst (add_metrics_and_logging
            (example_env\<lparr>inc_error := Some ''counter'', set_error := Some ''gauge''\<rparr>)
            example_request (\<lambda>s. (Inr live, s)) (initial_state 0)) = Inr live"
proof -
  have h1: "log_error (example_env\<lparr>inc_error := Some ''counter'', set_error := Some ''gauge''\<rparr>) = None"
    by (simp add: example_env_def)
  have h2: "binds_status (fst ((\<lambda>s. (Inr live, s)) (initial_state 0)))"
    by (simp add: binds_status_def)
  from h1 h2 metrics_failures_swallowed
      [where env = "example_env\<lparr>inc_error := Some ''counter'', set_error := Some ''gauge''\<rparr>"
         and call_next = "\<lambda>s. (Inr live, s)" and s = "initial_state 0"
         and rq = example_request]
  have "fst (add_metrics_and_logging
            (example_env\<lparr>inc_error := Some ''counter'', set_error := Some ''gauge''\<rparr>)
            example_request (\<lambda>s. (Inr live, s)) (initial_state 0)) = Inr live"
    by simp
  with h1 h2 show ?thesis
    by blast
qed

section \<open>Settings defaults\<close>

text \<open>
  C7. When none of the names \<^verbatim>\<open>Settings\<close> reads is set, in the environment or in the
  \<^verbatim>\<open>.env\<close> file, loading succeeds and every field has its default: SERVICE_NAME
  "prodstarter-fastapi", ENVIRONMENT "production", DEBUG false, CORS_ORIGINS empty,
  METRICS_ENABLED true, the three DSNs absent, OTEL_ENABLED false, HOST "0.0.0.0", PORT
  8000. With TRUSTED_HOSTS unset in the environment its value is "*", the host list of
  the application is the single entry "*", and there are no CORS origins.
\<close>

theorem settings_defaults:
  assumes "unset environ setting_names" and "unset dotenv setting_names"
    and "environ ''TRUSTED_HOSTS'' = None"
  shows "Settings_load parse_bool parse_int environ dotenv = Inr default_settings
     \<and> TRUSTED_HOSTS environ = ''*''
     \<and> trusted_host_list default_settings environ = Some [''*'']
     \<and> cors_origins default_settings = []"
  using assms
  by (simp add: unset_def setting_names_def Settings_load_def source_value_def coerced_def
      str_field_def invalid_def default_settings_def TRUSTED_HOSTS_def trusted_host_list_def
      stripped_parts_def strip_def isspace_def cors_origins_def)

theorem settings_defaults_witness:
  "unset Map.empty setting_names
   \<and> (Map.empty :: string \<Rightarrow> string option) ''TRUSTED_HOSTS'' = None
   \<and> Settings_load (\<lambda>v. None) (\<lambda>v. None) Map.empty Map.empty = Inr default_settings
   \<and> PORT default_settings = 8000 \<and> HOST default_settings = ''0.0.0.0''
   \<and> TRUSTED_HOSTS Map.empty = ''*''"
proof -
  have h1: "unset Map.empty setting_names"
    by (simp add: unset_def setting_names_def)
  have h2: "(Map.empty :: string \<Rightarrow> string option) ''TRUSTED_HOSTS'' = None"
    by simp
  have d: "PORT default_settings = 8000 \<and> HOST default_settings = ''0.0.0.0''"
    by (simp add: default_settings_def)
  from settings_defaults [OF h1 h1 h2, of "\<lambda>v. None" "\<lambda>v. None"] h1 h2 d
  show ?thesis
    by blast
qed

section \<open>The handle over the life of the process\<close>

text \<open>
  The invariant \<open>handle_ok\<close> (the handle is absent or connected) is kept by
  \<^verbatim>\<open>get_db\<close>, by every route, by the middleware layers and by the startup hook; only
  the shutdown hook calls \<^verbatim>\<open>disconnect\<close>.
\<close>

lemma logger_call_module_db [simp]: "module_db (logger_call lv ev kw s) = module_db s"
  by (simp add: logger_call_def)

lemma get_db_connected: "handle_ok s \<Longrightarrow> connected (fst (get_db settings s))"
  by (simp add: handle_ok_def get_db_def connect_def split: option.splits)

lemma get_db_stores: "module_db (snd (get_db settings s)) = Some (fst (get_db settings s))"
  by (simp add: get_db_def connect_def split: option.splits)

lemma get_db_handle_ok: "handle_ok s \<Longrightarrow> handle_ok (snd (get_db settings s))"
  using get_db_connected [of s settings] get_db_stores [of settings s]
  by (simp add: handle_ok_def)

lemma call_endpoint_handle_ok:
  "handle_ok s \<Longrightarrow> handle_ok (snd (call_endpoint settings now ep s))"
  using get_db_handle_ok [of s settings]
  by (cases ep) (auto simp: Let_def split: prod.splits sum.splits)

lemma routed_snd: "snd (routed settings now ep s) = snd (call_endpoint settings now ep s)"
  by (auto simp: routed_def split: prod.splits sum.splits exc.splits)

lemma routed_handle_ok: "handle_ok s \<Longrightarrow> handle_ok (snd (routed settings now ep s))"
  by (simp add: routed_snd call_endpoint_handle_ok)

lemma record_metrics_module_db [simp]:
  "module_db (record_metrics env meth endpoint c latency s) = module_db s"
  by (simp add: record_metrics_def Let_def split: option.splits)

lemma log_request_module_db:
  "log_request env meth endpoint c latency s = Inr s' \<Longrightarrow> module_db s' = module_db s"
  by (auto simp: log_request_def split: option.splits)

lemma middleware_module_db:
  "module_db (snd (add_metrics_and_logging env rq call_next s)) = module_db (snd (call_next s))"
  by (auto simp: add_metrics_and_logging_def Let_def dest: log_request_module_db
      split: prod.splits sum.splits)

lemma server_error_layer_module_db:
  "module_db (snd (server_error_layer settings rq inner s)) = module_db (snd (inner s))"
  by (auto simp: server_error_layer_def generic_exception_handler_def Let_def
      split: prod.splits sum.splits)

lemma handle_request_handle_ok:
  "handle_ok s \<Longrightarrow> handle_ok (snd (handle_request settings env now rq ep s))"
  using routed_handle_ok [of s settings now ep]
  by (simp add: handle_request_def handle_ok_def server_error_layer_module_db
      middleware_module_db)

lemma on_startup_handle_ok: "handle_ok s \<Longrightarrow> handle_ok (on_startup settings s)"
  by (auto simp: on_startup_def handle_ok_def connect_def Let_def split: option.splits)

lemma step_handle_ok: "e \<noteq> Shutdown \<Longrightarrow> handle_ok s \<Longrightarrow> handle_ok (step settings e s)"
  by (cases e) (simp_all add: on_startup_handle_ok handle_request_handle_ok)

lemma run_handle_ok:
  "Shutdown \<notin> set es \<Longrightarrow> handle_ok s \<Longrightarrow> handle_ok (run settings es s)"
proof (induction es arbitrary: s)
  case Nil
  then show ?case by simp
next
  case (Cons e es)
  from Cons.prems have "e \<noteq> Shutdown" and rest: "Shutdown \<notin> set es"
    by auto
  with Cons.prems have "handle_ok (step settings e s)"
    by (simp add: step_handle_ok)
  with rest show ?case
    by (simp add: Cons.IH)
qed

lemma routed_status_ok:
  "db_dependent ep \<Longrightarrow> handle_ok s
    \<Longrightarrow> outcome_status (fst (routed settings now ep s)) = Some 200"
  using get_db_connected [of s settings]
  by (cases ep)
     (auto simp: routed_def outcome_status_def health_def ready_def get_item_def is_healthy_def
        JSONResponse_def PlainTextResponse_def serialize_response_def Let_def
        split: prod.splits)

text \<open>
  After the shutdown hook the same routes do answer 503: the startup hook followed by the
  shutdown hook leaves a disconnected handle, which \<^verbatim>\<open>get_db\<close> yields as it is.
\<close>

lemma unhealthy_after_shutdown:
  "outcome_status (fst (routed default_settings 2 Health
      (run default_settings [Startup, Shutdown] (initial_state 0)))) = Some 503"
  by (simp add: routed_def outcome_status_def health_def is_healthy_def JSONResponse_def
      get_db_def on_startup_def on_shutdown_def connect_def disconnect_def logger_call_def
      initial_state_def Database_init_def default_settings_def truthy_def)

text \<open>
  C10. \<^verbatim>\<open>get_db\<close> on a state with no handle constructs a handle with the configured
  DSN, already connected; the handle it yields is the one stored in the global; on a
  state with a handle it yields that handle and changes nothing (no disconnect per
  request). So every route that depends on the database (\<^verbatim>\<open>/health\<close>, \<^verbatim>\<open>/ready\<close>,
  \<^verbatim>\<open>/api/v1/items/{id}\<close>) answers 200 when called with no handle yet, and answers 200
  after any sequence of startups and requests from the state at import in which the
  shutdown hook, the only caller of \<^verbatim>\<open>disconnect\<close>, has not run: a 503 from these
  routes needs an earlier shutdown.
\<close>

theorem lazy_connected_handle:
  assumes "db_dependent ep" and "Shutdown \<notin> set es"
  shows "fst (get_db settings (s\<lparr>module_db := None\<rparr>))
       = \<lparr>dsn = DATABASE_DSN settings, connected = True\<rparr>
     \<and> module_db (snd (get_db settings s)) = Some (fst (get_db settings s))
     \<and> get_db settings (s\<lparr>module_db := Some d\<rparr>) = (d, s\<lparr>module_db := Some d\<rparr>)
     \<and> outcome_status (fst (routed settings now ep (s\<lparr>module_db := None\<rparr>))) = Some 200
     \<and> outcome_status (fst (routed settings now ep (run settings es (initial_state t0))))
       = Some 200"
proof -
  have init: "handle_ok (initial_state t0)"
    by (simp add: handle_ok_def initial_state_def)
  have none: "handle_ok (s\<lparr>module_db := None\<rparr>)"
    by (simp add: handle_ok_def)
  have fresh: "fst (get_db settings (s\<lparr>module_db := None\<rparr>))
      = \<lparr>dsn = DATABASE_DSN settings, connected = True\<rparr>"
    by (simp add: get_db_def connect_def Database_init_def)
  have kept: "get_db settings (s\<lparr>module_db := Some d\<rparr>) = (d, s\<lparr>module_db := Some d\<rparr>)"
    by (simp add: get_db_def)
  from assms init have "handle_ok (run settings es (initial_state t0))"
    by (simp add: run_handle_ok)
  with assms none fresh kept show ?thesis
    by (simp add: get_db_stores routed_status_ok)
qed

theorem lazy_connected_handle_witness:
  "db_dependent Ready
   \<and> Shutdown \<notin> set [Startup, Request example_env 1 example_request Health]
   \<and> outcome_status (fst (routed default_settings 2 Ready (initial_state 0))) = Some 200
   \<and> outcome_status (fst (routed default_settings 2 Ready
        (run default_settings [Startup, Request example_env 1 example_request Health]
           (initial_state 0)))) = Some 200"
proof -
  have h1: "db_dependent Ready"
    by simp
  have h2: "Shutdown \<notin> set [Startup, Request example_env 1 example_request Health]"
    by simp
  have e: "(initial_state 0)\<lparr>module_db := None\<rparr> = initial_state 0"
    by (simp add: initial_state_def)
  from lazy_connected_handle
      [where ep = Ready and es = "[Startup, Request example_env 1 example_request Health]"
         and settings = default_settings and s = "initial_state 0" and now = 2 and ?t0.0 = 0,
       OF h1 h2]
  have "outcome_status (fst (routed default_settings 2 Ready ((initial_state 0)\<lparr>module_db := None\<rparr>)))
          = Some 200
     \<and> outcome_status (fst (routed default_settings 2 Ready
        (run default_settings [Startup, Request example_env 1 example_request Health]
           (initial_state 0)))) = Some 200"
    by blast
  with h1 h2 e show ?thesis
    by metis
qed

end
